theory Spec2Isabelle
  imports Main
begin

section \<open>Python values used by kind\_crawling.py\<close>

text \<open>
  A Python \<open>str\<close> is a sequence of Unicode code points, so it is modelled as the list of
  the integers \<open>ord\<close> gives (\<open>len\<close> counts code points, \<open>in\<close> is the sublist test). ASCII
  literals are written through \<open>ascii\<close>; the Korean literals of the source are
  spelled out as code points next to a comment naming them.
\<close>

type_synonym ustr = "int list"

definition ascii :: "string \<Rightarrow> ustr" where
  "ascii s = map of_char s"

text \<open>The exceptions the modelled code can meet.\<close>

datatype pyexn = ValueError | OverflowError | NoSuchElementException | TimeoutException
  | WebDriverException

text \<open>\<open>needle in haystack\<close> on strings.\<close>

fun starts_with :: "ustr \<Rightarrow> ustr \<Rightarrow> bool" where
  "starts_with [] s = True"
| "starts_with (p # ps) [] = False"
| "starts_with (p # ps) (c # cs) = (p = c \<and> starts_with ps cs)"

fun str_in :: "ustr \<Rightarrow> ustr \<Rightarrow> bool" where
  "str_in needle [] = (needle = [])"
| "str_in needle (c # cs) = (starts_with needle (c # cs) \<or> str_in needle cs)"

text \<open>
  ASCII decimal digits. Python's \<open>\d\<close> and \<open>str.isdigit\<close> also accept the decimal
  digits of other scripts; those code points are treated as non-digits here.
\<close>

definition is_digit :: "int \<Rightarrow> bool" where
  "is_digit c \<longleftrightarrow> 48 \<le> c \<and> c \<le> 57"

definition digit_val :: "int \<Rightarrow> int" where
  "digit_val c = c - 48"

definition digit_chr :: "int \<Rightarrow> int" where
  "digit_chr n = 48 + n"

section \<open>datetime\<close>

text \<open>
  The values built by \<open>datetime.strptime(s, '%Y-%m-%d')\<close> have time 00:00:00, and the
  code only adds whole days and replaces year and month, so a datetime is its calendar
  date. The constructor checks \<open>1 \<le> year \<le> 9999\<close>, the month and the day of the month,
  and raises ValueError otherwise.
\<close>

datatype datetime = Datetime (year: int) (month: int) (day: int)

definition is_leap :: "int \<Rightarrow> bool" where
  "is_leap y \<longleftrightarrow> y mod 4 = 0 \<and> (y mod 100 \<noteq> 0 \<or> y mod 400 = 0)"

definition days_in_month :: "int \<Rightarrow> int \<Rightarrow> int" where
  "days_in_month y m =
     (if m = 2 then (if is_leap y then 29 else 28)
      else if m = 4 \<or> m = 6 \<or> m = 9 \<or> m = 11 then 30 else 31)"

definition valid_ymd :: "int \<Rightarrow> int \<Rightarrow> int \<Rightarrow> bool" where
  "valid_ymd y m d \<longleftrightarrow>
     1 \<le> y \<and> y \<le> 9999 \<and> 1 \<le> m \<and> m \<le> 12 \<and> 1 \<le> d \<and> d \<le> days_in_month y m"

definition valid_dt :: "datetime \<Rightarrow> bool" where
  "valid_dt t \<longleftrightarrow> valid_ymd (year t) (month t) (day t)"

definition mk_datetime :: "int \<Rightarrow> int \<Rightarrow> int \<Rightarrow> pyexn + datetime" where
  "mk_datetime y m d = (if valid_ymd y m d then Inr (Datetime y m d) else Inl ValueError)"

text \<open>\<open>t.replace(month=m)\<close> and \<open>t.replace(year=y, month=m)\<close>.\<close>

definition replace_month :: "datetime \<Rightarrow> int \<Rightarrow> pyexn + datetime" where
  "replace_month t m = mk_datetime (year t) m (day t)"

definition replace_year_month :: "datetime \<Rightarrow> int \<Rightarrow> int \<Rightarrow> pyexn + datetime" where
  "replace_year_month t y m = mk_datetime y m (day t)"

text \<open>\<open>a < b\<close> and \<open>a > b\<close> on datetimes compare (year, month, day) lexicographically.\<close>

definition dt_less :: "datetime \<Rightarrow> datetime \<Rightarrow> bool" where
  "dt_less a b \<longleftrightarrow>
     year a < year b \<or> (year a = year b \<and>
       (month a < month b \<or> (month a = month b \<and> day a < day b)))"


text \<open>
  \<open>t + timedelta(days=1)\<close>: the next calendar day; OverflowError after 9999-12-31.
\<close>

definition add_one_day :: "datetime \<Rightarrow> pyexn + datetime" where
  "add_one_day t =
     (if day t < days_in_month (year t) (month t) then Inr (Datetime (year t) (month t) (day t + 1))
      else if month t < 12 then Inr (Datetime (year t) (month t + 1) 1)
      else if year t < 9999 then Inr (Datetime (year t + 1) 1 1)
      else Inl OverflowError)"





subsection \<open>strptime and strftime with the format \<open>%Y-%m-%d\<close>\<close>

text \<open>
  \<open>strptime\<close> turns the format into the regular expression
  \<open>(\d\d\d\d)-(1[0-2]|0[1-9]|[1-9])-(3[0-1]|[1-2]\d|0[1-9]|[1-9]| [1-9])\<close>, matches it at the
  start of the string, raises ValueError when it does not match or when text remains after
  the match, and then builds the date (ValueError when it does not exist). The alternatives
  are tried in the order written.
\<close>

definition in_range :: "int \<Rightarrow> int \<Rightarrow> int \<Rightarrow> bool" where
  "in_range lo hi c \<longleftrightarrow> lo \<le> c \<and> c \<le> hi"

text \<open>The day directive: the value and what follows the match.\<close>

fun match_d :: "ustr \<Rightarrow> (int \<times> ustr) option" where
  "match_d (a # b # r) =
     (if a = 51 \<and> in_range 48 49 b then Some (30 + digit_val b, r)
      else if in_range 49 50 a \<and> is_digit b then Some (10 * digit_val a + digit_val b, r)
      else if a = 48 \<and> in_range 49 57 b then Some (digit_val b, r)
      else if in_range 49 57 a then Some (digit_val a, b # r)
      else if a = 32 \<and> in_range 49 57 b then Some (digit_val b, r)
      else None)"
| "match_d [a] = (if in_range 49 57 a then Some (digit_val a, []) else None)"
| "match_d [] = None"

text \<open>What follows the month directive: the hyphen and the day.\<close>

fun match_hyphen_d :: "ustr \<Rightarrow> (int \<times> ustr) option" where
  "match_hyphen_d (c # r) = (if c = 45 then match_d r else None)"
| "match_hyphen_d [] = None"

text \<open>The month directive followed by the rest of the pattern: (month, day, rest).\<close>

definition match_m_rest :: "ustr \<Rightarrow> (int \<times> int \<times> ustr) option" where
  "match_m_rest s =
     (let alt1 = (case s of a # b # r \<Rightarrow>
                    if a = 49 \<and> in_range 48 50 b
                    then map_option (\<lambda>(d, r'). (10 + digit_val b, d, r')) (match_hyphen_d r)
                    else None
                  | _ \<Rightarrow> None);
          alt2 = (case s of a # b # r \<Rightarrow>
                    if a = 48 \<and> in_range 49 57 b
                    then map_option (\<lambda>(d, r'). (digit_val b, d, r')) (match_hyphen_d r)
                    else None
                  | _ \<Rightarrow> None);
          alt3 = (case s of a # r \<Rightarrow>
                    if in_range 49 57 a
                    then map_option (\<lambda>(d, r'). (digit_val a, d, r')) (match_hyphen_d r)
                    else None
                  | _ \<Rightarrow> None)
      in case alt1 of Some x \<Rightarrow> Some x
         | None \<Rightarrow> (case alt2 of Some x \<Rightarrow> Some x | None \<Rightarrow> alt3))"

definition match_ymd :: "ustr \<Rightarrow> (int \<times> int \<times> int \<times> ustr) option" where
  "match_ymd s =
     (case s of y1 # y2 # y3 # y4 # h # r \<Rightarrow>
        if is_digit y1 \<and> is_digit y2 \<and> is_digit y3 \<and> is_digit y4 \<and> h = 45
        then map_option
               (\<lambda>(m, d, r'). (1000 * digit_val y1 + 100 * digit_val y2 + 10 * digit_val y3
                                 + digit_val y4, m, d, r'))
               (match_m_rest r)
        else None
      | _ \<Rightarrow> None)"

definition strptime :: "ustr \<Rightarrow> pyexn + datetime" where
  "strptime s =
     (case match_ymd s of
        None \<Rightarrow> Inl ValueError
      | Some (y, m, d, r) \<Rightarrow> if r \<noteq> [] then Inl ValueError else mk_datetime y m d)"

text \<open>
  \<open>strftime('%Y-%m-%d')\<close>: the year with four digits, month and day with two, as the
  library documents the directives.
\<close>

definition pad2 :: "int \<Rightarrow> ustr" where
  "pad2 n = [digit_chr (n div 10 mod 10), digit_chr (n mod 10)]"

definition pad4 :: "int \<Rightarrow> ustr" where
  "pad4 n = [digit_chr (n div 1000 mod 10), digit_chr (n div 100 mod 10),
             digit_chr (n div 10 mod 10), digit_chr (n mod 10)]"

definition strftime :: "datetime \<Rightarrow> ustr" where
  "strftime t = pad4 (year t) @ [45] @ pad2 (month t) @ [45] @ pad2 (day t)"

section \<open>split\_date\_range\<close>

text \<open>
  The body of the \<open>while current_start < end_dt\<close> loop, with \<open>date_ranges\<close> as the
  accumulator. An exception raised by \<open>replace\<close> or by the addition of a day leaves the
  loop as \<open>Inl\<close>.
\<close>

definition add_max_months :: "datetime \<Rightarrow> int \<Rightarrow> pyexn + datetime" where
  "add_max_months current_start max_months =
     (if month current_start + max_months \<le> 12
      then replace_month current_start (month current_start + max_months)
      else replace_year_month current_start (year current_start + 1)
             ((month current_start + max_months) - 12))"

definition clip_end :: "datetime \<Rightarrow> datetime \<Rightarrow> datetime" where
  "clip_end current_end end_dt = (if dt_less end_dt current_end then end_dt else current_end)"

text \<open>
  The loop ends because each pass moves \<open>current_start\<close> strictly: forwards, up to
  \<open>end_dt\<close>, when \<open>max_months\<close> is not negative, and backwards, down to the first
  month of a year where \<open>replace\<close> raises, when it is negative. \<open>lin\<close> is a linear
  stand-in for the day number that is monotone on dates.
\<close>

definition lin :: "datetime \<Rightarrow> int" where
  "lin t = 372 * year t + 31 * month t + day t"

definition split_measure :: "int \<times> datetime \<times> datetime \<times> (ustr \<times> ustr) list \<Rightarrow> nat" where
  "split_measure = (\<lambda>(max_months, current_start, end_dt, acc).
     if \<not> dt_less current_start end_dt then 0
     else if \<not> valid_dt current_start
       then 2 + nat (372 * (year end_dt + 3)) + nat (372 * (year current_start + 4))
     else if 0 \<le> max_months then 1 + nat (372 * (year end_dt + 3) - lin current_start)
     else 1 + nat (lin current_start))"

lemma dim_bounds: "28 \<le> days_in_month y m \<and> days_in_month y m \<le> 31"
  by (simp add: days_in_month_def)

lemma add_one_day_valid:
  assumes "valid_dt t" "add_one_day t = Inr n"
  shows "valid_dt n"
  using assms dim_bounds[of "year t" "month t + 1"] dim_bounds[of "year t + 1" 1]
  by (auto simp: add_one_day_def valid_dt_def valid_ymd_def split: if_splits)

lemma add_one_day_lin:
  assumes "valid_dt t" "add_one_day t = Inr n"
  shows "lin t < lin n \<and> lin n \<le> lin t + 4"
  using assms dim_bounds[of "year t" "month t"]
  by (auto simp: add_one_day_def valid_dt_def valid_ymd_def lin_def split: if_splits)

lemma add_one_day_greater: "add_one_day t = Inr n \<Longrightarrow> dt_less t n"
  by (auto simp: add_one_day_def dt_less_def split: if_splits)

lemma add_max_months_valid: "add_max_months t k = Inr c \<Longrightarrow> valid_dt c"
  by (auto simp: add_max_months_def replace_month_def replace_year_month_def mk_datetime_def valid_dt_def split: if_splits)

lemma add_max_months_lin: "add_max_months t k = Inr c \<Longrightarrow> lin c = lin t + 31 * k"
  by (auto simp: add_max_months_def replace_month_def replace_year_month_def mk_datetime_def lin_def split: if_splits)

lemma add_max_months_year: "add_max_months t k = Inr c \<Longrightarrow> year c = year t \<or> year c = year t + 1"
  by (auto simp: add_max_months_def replace_month_def replace_year_month_def mk_datetime_def lin_def split: if_splits)

lemma dt_less_asym: "dt_less a b \<Longrightarrow> \<not> dt_less b a"
  by (auto simp: dt_less_def)


lemma valid_lin_bounds: "valid_dt a \<Longrightarrow> 0 < lin a \<and> lin a \<le> 372 * year a + 403"
  using dim_bounds[of "year a" "month a"]
  by (auto simp: lin_def valid_dt_def valid_ymd_def)

lemma split_measure_step:
  assumes lt: "dt_less current_start end_dt"
    and am: "add_max_months current_start max_months = Inr c"
    and ad: "add_one_day (clip_end c end_dt) = Inr n"
  shows "split_measure (max_months, n, end_dt, acc') < split_measure (max_months, current_start, end_dt, acc)"
proof (cases "dt_less end_dt c")
  case True
  then have "clip_end c end_dt = end_dt" by (simp add: clip_end_def)
  with ad have "dt_less end_dt n" by (simp add: add_one_day_greater)
  then have "\<not> dt_less n end_dt" by (rule dt_less_asym)
  then show ?thesis using lt by (simp add: split_measure_def)
next
  case False
  then have ce: "clip_end c end_dt = c" by (simp add: clip_end_def)
  have vc: "valid_dt c" using am by (rule add_max_months_valid)
  have vn: "valid_dt n" using vc ad ce by (simp add: add_one_day_valid)
  have ln: "lin c < lin n \<and> lin n \<le> lin c + 4" using vc ad ce by (simp add: add_one_day_lin)
  have lc: "lin c = lin current_start + 31 * max_months" using am by (rule add_max_months_lin)
  have yn: "year current_start \<le> year end_dt" using lt by (auto simp: dt_less_def)
  show ?thesis
  proof (cases "dt_less n end_dt")
    case False
    then show ?thesis using lt by (simp add: split_measure_def)
  next
    case nlt: True
    have bn: "0 < lin n \<and> lin n \<le> 372 * year n + 403" using vn by (rule valid_lin_bounds)
    have yne: "year n \<le> year end_dt" using nlt by (auto simp: dt_less_def)
    show ?thesis
    proof (cases "valid_dt current_start")
      case True
      have bs: "0 < lin current_start \<and> lin current_start \<le> 372 * year current_start + 403"
        using True by (rule valid_lin_bounds)
      show ?thesis
      proof (cases "0 \<le> max_months")
        case True
        then show ?thesis using lt nlt vn \<open>valid_dt current_start\<close> ln lc bs bn yn yne
          by (simp add: split_measure_def)
      next
        case False
        then show ?thesis using lt nlt vn \<open>valid_dt current_start\<close> ln lc bs bn yn yne
          by (simp add: split_measure_def)
      qed
    next
      case False
      have "year n \<le> year current_start + 2"
        using add_max_months_year[OF am] ad ce by (auto simp: add_one_day_def split: if_splits)
      then have b1: "lin n < 372 * year current_start + 1488" using bn by linarith
      have b2: "nat (372 * year end_dt + 1116 - lin n) \<le> nat (372 * year end_dt + 1116)"
        using bn by linarith
      have b3: "nat (lin n) \<le> nat (372 * year current_start + 1488)" using b1 by linarith
      show ?thesis using lt nlt vn False b2 b3
        by (simp add: split_measure_def)
    qed
  qed
qed

function split_loop :: "int \<Rightarrow> datetime \<Rightarrow> datetime \<Rightarrow> (ustr \<times> ustr) list \<Rightarrow> pyexn + (ustr \<times> ustr) list" where
  "split_loop max_months current_start end_dt date_ranges =
     (if dt_less current_start end_dt then
        (case add_max_months current_start max_months of
           Inl e \<Rightarrow> Inl e
         | Inr current_end \<Rightarrow>
             (case add_one_day (clip_end current_end end_dt) of
                Inl e \<Rightarrow> Inl e
              | Inr next_start \<Rightarrow>
                  split_loop max_months next_start end_dt
                    (date_ranges @ [(strftime current_start, strftime (clip_end current_end end_dt))])))
      else Inr date_ranges)"
  by pat_completeness auto
termination
  by (relation "measure split_measure") (simp_all add: split_measure_step)

declare split_loop.simps [simp del]

definition split_date_range :: "ustr \<Rightarrow> ustr \<Rightarrow> int \<Rightarrow> (ustr \<times> ustr) list" where
  "split_date_range start_date end_date max_months =
     (case strptime start_date of
        Inl e \<Rightarrow> [(start_date, end_date)]
      | Inr start_dt \<Rightarrow>
          (case strptime end_date of
             Inl e \<Rightarrow> [(start_date, end_date)]
           | Inr end_dt \<Rightarrow>
               (case split_loop max_months start_dt end_dt [] of
                  Inl e \<Rightarrow> [(start_date, end_date)]
                | Inr date_ranges \<Rightarrow> date_ranges)))"

subsection \<open>What a list of sub-ranges has to satisfy\<close>

















section \<open>\_analyze\_title\<close>

text \<open>
  \<open>str.lower\<close> on the ASCII letters. The three keywords compared with the lowered title
  are made of Hangul syllables, one Han character and the letters of \<open>preferred\<close>, and no
  code point outside ASCII lowers to one of those, so the other code points may stay as
  they are.
\<close>

definition str_lower :: "ustr \<Rightarrow> ustr" where
  "str_lower s = map (\<lambda>c. if 65 \<le> c \<and> c \<le> 90 then c + 32 else c) s"

text \<open>The keywords of the source, as code points.\<close>

definition kw_tuja_gyeonggo :: ustr where \<comment> \<open>U+D22C U+C790 U+ACBD U+ACE0, "investment warning"\<close>
  "kw_tuja_gyeonggo = [53804, 51088, 44221, 44256]"

definition kw_jijeong :: ustr where \<comment> \<open>U+C9C0 U+C815, "designation"\<close>
  "kw_jijeong = [51648, 51221]"

definition kw_haeje :: ustr where \<comment> \<open>U+D574 U+C81C, "release"\<close>
  "kw_haeje = [54644, 51228]"

definition redesignation_keywords :: "ustr list" where
  \<comment> \<open>U+C7AC U+C9C0 U+C815; U+C7AC U+C120 U+C815; U+C7AC U+B300 U+C0C1\<close>
  "redesignation_keywords = [[51116, 51648, 51221], [51116, 49440, 51221], [51116, 45824, 49345]]"

definition preferred_keywords :: "ustr list" where
  \<comment> \<open>U+C6B0 U+C120 U+C8FC; U+C6B0 U+C120 U+682A; \<open>preferred\<close>\<close>
  "preferred_keywords = [[50864, 49440, 51452], [50864, 49440, 26666], ascii ''preferred'']"

record analysis =
  is_redesignation :: bool
  is_preferred_stock :: bool
  designation_type :: ustr

definition analyze_title :: "ustr \<Rightarrow> analysis" where
  "analyze_title title =
     \<lparr> is_redesignation = list_ex (\<lambda>keyword. str_in keyword title) redesignation_keywords,
       is_preferred_stock =
         list_ex (\<lambda>keyword. str_in keyword (str_lower title)) preferred_keywords,
       designation_type =
         (if str_in kw_tuja_gyeonggo title then
            (if str_in kw_jijeong title \<and> \<not> str_in kw_haeje title then ascii ''designation''
             else if str_in kw_haeje title then ascii ''cancellation''
             else ascii ''other'')
          else ascii ''unknown'') \<rparr>"

text \<open>The title U+D22C U+C790 U+ACBD U+ACE0 U+C885 U+BAA9, space, U+C9C0 U+C815, space,
  U+D574 U+C81C of the scenario ("investment-warning issue, designation release").\<close>

definition title_designation_release :: ustr where
  "title_designation_release =
     [53804, 51088, 44221, 44256, 51333, 47785, 32, 51648, 51221, 32, 54644, 51228]"

section \<open>\_extract\_disclosure\_link\<close>

text \<open>
  The whitespace class \<open>\s\<close> of a \<open>str\<close> pattern: the code points for which
  \<open>str.isspace\<close> holds. \<open>str.strip()\<close> removes the same code points.
\<close>

definition is_space :: "int \<Rightarrow> bool" where
  "is_space c \<longleftrightarrow>
     (9 \<le> c \<and> c \<le> 13) \<or> (28 \<le> c \<and> c \<le> 32) \<or> c = 133 \<or> c = 160 \<or> c = 5760
     \<or> (8192 \<le> c \<and> c \<le> 8202) \<or> c = 8232 \<or> c = 8233 \<or> c = 8239 \<or> c = 8287
     \<or> c = 12288"

fun strip_prefix :: "ustr \<Rightarrow> ustr \<Rightarrow> ustr option" where
  "strip_prefix [] s = Some s"
| "strip_prefix (p # ps) [] = None"
| "strip_prefix (p # ps) (c # cs) = (if p = c then strip_prefix ps cs else None)"

text \<open>
  \<open>re.search\<close>: the match at the leftmost position where the pattern matches. Both
  patterns below are deterministic at a given position: a negated class is followed by the
  character it excludes, and \<open>\s*\<close> by a quote.
\<close>

fun re_search :: "(ustr \<Rightarrow> 'a option) \<Rightarrow> ustr \<Rightarrow> 'a option" where
  "re_search match_at [] = match_at []"
| "re_search match_at (c # cs) =
     (case match_at (c # cs) of Some g \<Rightarrow> Some g | None \<Rightarrow> re_search match_at cs)"

definition not_quote :: "int \<Rightarrow> bool" where
  "not_quote c \<longleftrightarrow> c \<noteq> 39"

definition not_amp :: "int \<Rightarrow> bool" where
  "not_amp c \<longleftrightarrow> c \<noteq> 38"

text \<open>
  The pattern \<open>openDisclsViewer\('([^']*)',\s*'([^']*)',\s*'([^']*)'\<close> at the start of
  \<open>s\<close>; 40 is the opening parenthesis, 39 the quote, 44 the comma.
\<close>

definition viewer_name :: ustr where
  "viewer_name = ascii ''openDisclsViewer''"

definition viewer_open :: ustr where
  "viewer_open = viewer_name @ [40, 39]"

definition match_viewer_at :: "ustr \<Rightarrow> (ustr \<times> ustr \<times> ustr) option" where
  "match_viewer_at s =
     (case strip_prefix viewer_open s of None \<Rightarrow> None
      | Some r1 \<Rightarrow>
     (case strip_prefix [39, 44] (dropWhile not_quote r1) of None \<Rightarrow> None
      | Some r2 \<Rightarrow>
     (case strip_prefix [39] (dropWhile is_space r2) of None \<Rightarrow> None
      | Some r3 \<Rightarrow>
     (case strip_prefix [39, 44] (dropWhile not_quote r3) of None \<Rightarrow> None
      | Some r4 \<Rightarrow>
     (case strip_prefix [39] (dropWhile is_space r4) of None \<Rightarrow> None
      | Some r5 \<Rightarrow>
     (case strip_prefix [39] (dropWhile not_quote r5) of None \<Rightarrow> None
      | Some r6 \<Rightarrow>
          Some (takeWhile not_quote r1, takeWhile not_quote r3, takeWhile not_quote r5)))))))"

text \<open>
  The pattern
  \<open>disclsviewer\.do\?method=search&acptno=([^&]+)&docno=([^&]+)&viewerhost=([^&]+)\<close>
  at the start of \<open>s\<close>.
\<close>

definition match_href_at :: "ustr \<Rightarrow> (ustr \<times> ustr \<times> ustr) option" where
  "match_href_at s =
     (case strip_prefix (ascii ''disclsviewer.do?method=search&acptno='') s of None \<Rightarrow> None
      | Some r1 \<Rightarrow>
     if takeWhile not_amp r1 = [] then None else
     (case strip_prefix (ascii ''&docno='') (dropWhile not_amp r1) of None \<Rightarrow> None
      | Some r2 \<Rightarrow>
     if takeWhile not_amp r2 = [] then None else
     (case strip_prefix (ascii ''&viewerhost='') (dropWhile not_amp r2) of None \<Rightarrow> None
      | Some r3 \<Rightarrow>
     if takeWhile not_amp r3 = [] then None
     else Some (takeWhile not_amp r1, takeWhile not_amp r2, takeWhile not_amp r3))))"

definition base_url :: ustr where
  "base_url = ascii ''https://kind.krx.co.kr''"

definition viewer_link :: "ustr \<Rightarrow> ustr \<Rightarrow> ustr \<Rightarrow> ustr" where
  "viewer_link acptno docno viewerhost =
     base_url @ ascii ''/common/disclsviewer.do?method=search&acptno='' @ acptno
       @ ascii ''&docno='' @ docno @ ascii ''&viewerhost='' @ viewerhost
       @ ascii ''&viewerport=''"

text \<open>
  An attribute read by \<open>get_attribute\<close> is \<open>None\<close> or a string; \<open>x and ...\<close> is false for
  \<open>None\<close> and for the empty string.
\<close>

definition truthy :: "ustr option \<Rightarrow> bool" where
  "truthy x \<longleftrightarrow> x \<noteq> None \<and> x \<noteq> Some []"

definition extract_disclosure_link :: "ustr option \<Rightarrow> ustr option \<Rightarrow> ustr option" where
  "extract_disclosure_link onclick_text href_text =
     (if truthy onclick_text \<and> str_in viewer_name (the onclick_text) then
        (case re_search match_viewer_at (the onclick_text) of
           Some (acptno, docno, viewerhost) \<Rightarrow> Some (viewer_link acptno docno viewerhost)
         | None \<Rightarrow> None)
      else if truthy href_text \<and> str_in (ascii ''disclsviewer.do'') (the href_text) then
        (case re_search match_href_at (the href_text) of
           Some (acptno, docno, viewerhost) \<Rightarrow> Some (viewer_link acptno docno viewerhost)
         | None \<Rightarrow> None)
      else None)"

text \<open>
  The handler of the scenario, \<open>openDisclsViewer('12345','67890','host1','')\<close>.
\<close>

definition handler_example :: ustr where
  "handler_example = viewer_open @ ascii ''12345'' @ 39 # 44 # [] @ 39 # ascii ''67890''
      @ 39 # 44 # [] @ 39 # ascii ''host1'' @ 39 # [44, 39, 39, 41]"

section \<open>The rows of extract\_page\_data\<close>

text \<open>
  What the row loop reads from the page: a row is the list of its \<open>td\<close> cells, a cell has
  its text and the \<open>a\<close> elements inside it, and an \<open>a\<close> element has its text and the two
  attributes, which \<open>get_attribute\<close> returns as \<open>None\<close> when absent.
\<close>

record anchor =
  a_text :: ustr
  a_onclick :: "ustr option"
  a_href :: "ustr option"

record cell =
  cell_text :: ustr
  cell_links :: "anchor list"

definition str_strip :: "ustr \<Rightarrow> ustr" where
  "str_strip s = rev (dropWhile is_space (rev (dropWhile is_space s)))"

text \<open>\<open>str(n)\<close> for a non-negative integer.\<close>

fun str_of_nat :: "nat \<Rightarrow> ustr" where
  "str_of_nat n =
     (if n < 10 then [48 + int n] else str_of_nat (n div 10) @ [48 + int (n mod 10)])"

declare str_of_nat.simps [simp del]

text \<open>
  The dictionary appended to \<open>data\<close>: the three results of the title analysis and the
  fields read from the row.
\<close>

record data_item = analysis +
  row_num :: ustr
  datetime :: ustr
  company_name :: ustr
  title :: ustr
  submitter :: ustr
  disclosure_link :: "ustr option"

text \<open>
  The column layout chosen from the number of cells of row \<open>i\<close>:
  (row\_num, time\_text, company\_name, title\_col, submitter).
\<close>

definition row_fields :: "nat \<Rightarrow> cell list \<Rightarrow> (ustr \<times> ustr \<times> ustr \<times> cell \<times> ustr) option" where
  "row_fields i cols =
     (if length cols < 3 then None
      else if length cols \<ge> 5 then
        Some (str_strip (cell_text (cols ! 0)), str_strip (cell_text (cols ! 1)),
              str_strip (cell_text (cols ! 2)), cols ! 3,
              (if length cols > 4 then str_strip (cell_text (cols ! 4)) else []))
      else if length cols = 4 then
        Some (str_of_nat (i + 1), str_strip (cell_text (cols ! 0)),
              str_strip (cell_text (cols ! 1)), cols ! 2, str_strip (cell_text (cols ! 3)))
      else if length cols = 3 then
        Some (str_of_nat (i + 1), str_strip (cell_text (cols ! 0)),
              str_strip (cell_text (cols ! 1)), cols ! 2, [])
      else None)"

text \<open>The title and the link read from the title cell.\<close>

definition title_and_link :: "cell \<Rightarrow> ustr \<times> ustr option" where
  "title_and_link title_col =
     (case cell_links title_col of
        title_element # _ \<Rightarrow>
          (str_strip (a_text title_element),
           extract_disclosure_link (a_onclick title_element) (a_href title_element))
      | [] \<Rightarrow> (str_strip (cell_text title_col), None))"

text \<open>
  The labels that mark a header row: U+ACF5 U+C2DC U+C81C U+BAA9, U+C81C U+BAA9 and
  \<open>title\<close>.
\<close>

definition title_labels :: "ustr list" where
  "title_labels = [[44277, 49884, 51228, 47785], [51228, 47785], ascii ''title'']"

text \<open>One pass of the loop over \<open>enumerate(table_rows)\<close>: the item appended, or \<open>None\<close>
  when the row is skipped.\<close>

definition extract_row :: "nat \<Rightarrow> cell list \<Rightarrow> data_item option" where
  "extract_row i cols =
     (case row_fields i cols of
        None \<Rightarrow> None
      | Some (row_num', time_text, company_name', title_col, submitter') \<Rightarrow>
          (case title_and_link title_col of (title', disclosure_link') \<Rightarrow>
             if title' = [] \<or> company_name' = [] \<or> str_lower title' \<in> set title_labels then None
             else if time_text = [] \<or> length time_text < 8 then None
             else Some \<lparr> is_redesignation = is_redesignation (analyze_title title'),
                         is_preferred_stock = is_preferred_stock (analyze_title title'),
                         designation_type = designation_type (analyze_title title'),
                         row_num = row_num', datetime = time_text,
                         company_name = company_name', title = title',
                         submitter = submitter', disclosure_link = disclosure_link' \<rparr>))"

fun extract_rows_from :: "nat \<Rightarrow> cell list list \<Rightarrow> data_item list" where
  "extract_rows_from i [] = []"
| "extract_rows_from i (row # rows) =
     (case extract_row i row of
        None \<Rightarrow> extract_rows_from (i + 1) rows
      | Some data_item \<Rightarrow> data_item # extract_rows_from (i + 1) rows)"

definition extract_rows :: "cell list list \<Rightarrow> data_item list" where
  "extract_rows table_rows = extract_rows_from 0 table_rows"

section \<open>The deduplication of scrape\_investment\_warning\_stocks\<close>

text \<open>
  \<open>df.drop_duplicates(subset=['datetime', 'company_name', 'title'])\<close> keeps, in order, the
  first row of every key.
\<close>

definition dedup_key :: "data_item \<Rightarrow> ustr \<times> ustr \<times> ustr" where
  "dedup_key r = (datetime r, company_name r, title r)"

fun drop_duplicates_from :: "(ustr \<times> ustr \<times> ustr) list \<Rightarrow> data_item list \<Rightarrow> data_item list" where
  "drop_duplicates_from seen [] = []"
| "drop_duplicates_from seen (r # rs) =
     (if dedup_key r \<in> set seen then drop_duplicates_from seen rs
      else r # drop_duplicates_from (dedup_key r # seen) rs)"

definition drop_duplicates :: "data_item list \<Rightarrow> data_item list" where
  "drop_duplicates df = drop_duplicates_from [] df"

text \<open>
  The rows of the scenario as the page shows them, in the four-cell layout (time, company,
  title, submitter); the title is "investment-warning issue, designation"
  (U+D22C U+C790 U+ACBD U+ACE0 U+C885 U+BAA9, space, U+C9C0 U+C815).
\<close>

definition text_cell :: "ustr \<Rightarrow> cell" where
  "text_cell s = \<lparr> cell_text = s, cell_links = [] \<rparr>"

definition title_designation :: ustr where
  "title_designation = [53804, 51088, 44221, 44256, 51333, 47785, 32, 51648, 51221]"

definition scenario_row :: "ustr \<Rightarrow> cell list" where
  "scenario_row time_text =
     [text_cell time_text, text_cell (ascii ''A Corp''), text_cell title_designation,
      text_cell (ascii ''X'')]"


section \<open>The browser\<close>

text \<open>
  Selenium is outside the repository, so the browser is a parameter of the model: a state
  \<open>'st\<close> (the session with the page it shows) and the operations the code calls on it.
  Reading the page (\<open>find_elements\<close>, \<open>text\<close>, \<open>get_attribute\<close>, \<open>is_selected\<close>,
  \<open>current_url\<close>) is a function of the state; waiting, scrolling, clicking and sleeping
  return a new state. Every operation can raise, which is the \<open>Inl\<close> result.
  \<open>element_to_be_clickable\<close> is called with a (By, value) pair in most places and with a
  bare XPath string in \<open>navigate_to_next_page\<close>; both are locators here.
\<close>

datatype by_strategy = By_CSS_SELECTOR | By_XPATH | By_ID

datatype locator = Locator by_strategy ustr | Bare ustr

record ('st, 'el) driver =
  wait_clickable :: "nat \<Rightarrow> locator \<Rightarrow> 'st \<Rightarrow> (pyexn + 'el) \<times> 'st"
  scroll_into_view :: "'el \<Rightarrow> 'st \<Rightarrow> (pyexn + unit) \<times> 'st"
  js_click :: "'el \<Rightarrow> 'st \<Rightarrow> (pyexn + unit) \<times> 'st"
  sleep :: "nat \<Rightarrow> 'st \<Rightarrow> 'st"
  is_selected :: "'el \<Rightarrow> 'st \<Rightarrow> pyexn + bool"
  is_enabled :: "'el \<Rightarrow> 'st \<Rightarrow> pyexn + bool"
  is_displayed :: "'el \<Rightarrow> 'st \<Rightarrow> pyexn + bool"
  find_elements :: "ustr \<Rightarrow> 'st \<Rightarrow> pyexn + 'el list"
  element_text :: "'el \<Rightarrow> 'st \<Rightarrow> pyexn + ustr"
  get_attribute :: "'el \<Rightarrow> ustr \<Rightarrow> 'st \<Rightarrow> pyexn + ustr option"
  current_url :: "'st \<Rightarrow> pyexn + ustr"
  save_screenshot :: "'st \<Rightarrow> 'st"
  table_rows :: "'st \<Rightarrow> cell list list"
  navigate_to_search_page :: "'st \<Rightarrow> bool \<times> 'st"
  set_date_range :: "ustr \<Rightarrow> ustr \<Rightarrow> 'st \<Rightarrow> bool \<times> 'st"
  select_disclosure_types :: "ustr list option \<Rightarrow> 'st \<Rightarrow> bool \<times> 'st"
  set_page_size :: "nat \<Rightarrow> 'st \<Rightarrow> 'st"
  click_search_button :: "'st \<Rightarrow> bool \<times> 'st"

text \<open>
  The last five fields stand for methods of the scraper that are not embedded line by
  line: each of them wraps its body in \<open>try/except Exception\<close> and returns a truth value
  (\<open>set_page_size\<close> returns \<open>True\<close> on every path and its result is not read).
  \<open>table_rows\<close> is the list of data rows that the first half of \<open>extract_page_data\<close>
  finds on the page (empty when it finds none), each row as its cells. The durations of
  \<open>sleep\<close> are in milliseconds, those of \<open>wait_clickable\<close> in seconds.
\<close>

subsection \<open>get\_current\_page\_number\<close>

text \<open>\<open>s.isdigit()\<close> and \<open>int(s)\<close> on digit strings.\<close>

definition py_isdigit :: "ustr \<Rightarrow> bool" where
  "py_isdigit s \<longleftrightarrow> s \<noteq> [] \<and> list_all is_digit s"

definition nat_of_digits :: "ustr \<Rightarrow> nat" where
  "nat_of_digits s = foldl (\<lambda>a c. 10 * a + nat (digit_val c)) 0 s"

text \<open>The pattern \<open>page[Nn]o?=(\d+)\<close> at the start of \<open>s\<close>; 78, 110, 111 and 61 are
  \<open>N\<close>, \<open>n\<close>, \<open>o\<close> and \<open>=\<close>.\<close>

definition match_pageNo_at :: "ustr \<Rightarrow> nat option" where
  "match_pageNo_at s =
     (case strip_prefix (ascii ''page'') s of None \<Rightarrow> None
      | Some r \<Rightarrow>
     (case r of [] \<Rightarrow> None
      | c # r1 \<Rightarrow>
          if c = 78 \<or> c = 110 then
            (case strip_prefix [61]
                    (case r1 of [] \<Rightarrow> [] | c' # r2 \<Rightarrow> if c' = 111 then r2 else r1) of
               None \<Rightarrow> None
             | Some r3 \<Rightarrow>
                 if takeWhile is_digit r3 = [] then None
                 else Some (nat_of_digits (takeWhile is_digit r3)))
          else None))"

definition current_page_selectors :: "ustr list" where
  "current_page_selectors =
     [ascii ''//a[contains(@class, 'current') or contains(@class, 'on') or contains(@class, 'active')]'',
      ascii ''//span[contains(@class, 'current') or contains(@class, 'on') or contains(@class, 'active')]'',
      ascii ''//strong[contains(@class, 'current') or contains(@class, 'on')]'',
      ascii ''//li[contains(@class, 'on') or contains(@class, 'current')]//a'',
      ascii ''//div[@class='paging']//strong'',
      ascii ''//div[contains(@class, 'page')]//strong'']"

text \<open>
  The two nested loops return from the function when an element carries a positive
  number, go on with the next selector on NoSuchElementException, and leave through the
  outer handler on any other exception.
\<close>

datatype scan = Found nat | Raised pyexn | Missing

fun scan_elements :: "('st, 'el) driver \<Rightarrow> 'st \<Rightarrow> 'el list \<Rightarrow> scan" where
  "scan_elements D s [] = Missing"
| "scan_elements D s (element # elements) =
     (case element_text D element s of
        Inl e \<Rightarrow> Raised e
      | Inr txt \<Rightarrow>
          if py_isdigit (str_strip txt) \<and> nat_of_digits (str_strip txt) > 0
          then Found (nat_of_digits (str_strip txt))
          else scan_elements D s elements)"

fun scan_selectors :: "('st, 'el) driver \<Rightarrow> 'st \<Rightarrow> ustr list \<Rightarrow> scan" where
  "scan_selectors D s [] = Missing"
| "scan_selectors D s (selector # selectors) =
     (case find_elements D selector s of
        Inl e \<Rightarrow> if e = NoSuchElementException then scan_selectors D s selectors else Raised e
      | Inr current_elements \<Rightarrow>
          (case scan_elements D s current_elements of
             Found n \<Rightarrow> Found n
           | Raised e \<Rightarrow>
               if e = NoSuchElementException then scan_selectors D s selectors else Raised e
           | Missing \<Rightarrow> scan_selectors D s selectors))"

definition get_current_page_number :: "('st, 'el) driver \<Rightarrow> 'st \<Rightarrow> nat" where
  "get_current_page_number D s =
     (case scan_selectors D s current_page_selectors of
        Found n \<Rightarrow> n
      | Raised e \<Rightarrow> 1
      | Missing \<Rightarrow>
          (case current_url D s of
             Inl e \<Rightarrow> 1
           | Inr url \<Rightarrow> (case re_search match_pageNo_at url of Some n \<Rightarrow> n | None \<Rightarrow> 1)))"

subsection \<open>navigate\_to\_next\_page\<close>

text \<open>39 is the quote; 45796 and 51020 are the two syllables of the word for "next".\<close>

definition next_page_selectors :: "nat \<Rightarrow> ustr list" where
  "next_page_selectors current_page =
     [ascii ''//a[text()='' @ [39] @ str_of_nat (current_page + 1) @ [39]
        @ ascii '' and not(contains(@class, 'disabled'))]'',
      ascii ''//a[contains(@onclick, 'goPage') and contains(text(), '' @ [39, 45796, 51020, 39]
        @ ascii '')]'',
      ascii ''//a[contains(@class, 'next') and not(contains(@class, 'disabled'))]'',
      ascii ''//a[contains(@onclick, 'goPage('' @ str_of_nat (current_page + 1) @ ascii '')')]'',
      ascii ''//a[contains(@title, '' @ [39, 45796, 51020, 39] @ ascii '')]'',
      ascii ''//button[contains(text(), '' @ [39, 45796, 51020, 39] @ ascii '')]'',
      ascii ''//a[@href and contains(@href, 'page='' @ str_of_nat (current_page + 1) @ [39]
        @ ascii '')]'']"

text \<open>
  The loop over the selectors. Every exception inside the \<open>try\<close> goes on with the next
  selector, in the state reached so far; so does a button that is not enabled or not
  displayed, and a click after which the page number is not larger.
\<close>

fun try_next_buttons :: "('st, 'el) driver \<Rightarrow> nat \<Rightarrow> ustr list \<Rightarrow> 'st \<Rightarrow> bool \<times> 'st" where
  "try_next_buttons D current_page [] s = (False, s)"
| "try_next_buttons D current_page (selector # selectors) s =
     (case wait_clickable D 5 (Bare selector) s of
        (Inl e, s1) \<Rightarrow> try_next_buttons D current_page selectors s1
      | (Inr next_button, s1) \<Rightarrow>
     (case is_enabled D next_button s1 of
        Inl e \<Rightarrow> try_next_buttons D current_page selectors s1
      | Inr False \<Rightarrow> try_next_buttons D current_page selectors s1
      | Inr True \<Rightarrow>
     (case is_displayed D next_button s1 of
        Inl e \<Rightarrow> try_next_buttons D current_page selectors s1
      | Inr False \<Rightarrow> try_next_buttons D current_page selectors s1
      | Inr True \<Rightarrow>
     (case scroll_into_view D next_button s1 of
        (Inl e, s2) \<Rightarrow> try_next_buttons D current_page selectors s2
      | (Inr u, s2) \<Rightarrow>
     (case js_click D next_button (sleep D 1000 s2) of
        (Inl e, s3) \<Rightarrow> try_next_buttons D current_page selectors s3
      | (Inr u', s3) \<Rightarrow>
          if get_current_page_number D (sleep D 4000 s3) > current_page
          then (True, sleep D 4000 s3)
          else try_next_buttons D current_page selectors (sleep D 4000 s3))))))"

text \<open>The pattern \<open>goPage\((\d+)\)\<close> at the start of \<open>s\<close>; 41 is the closing parenthesis.\<close>

definition match_goPage_at :: "ustr \<Rightarrow> nat option" where
  "match_goPage_at s =
     (case strip_prefix (ascii ''goPage('') s of None \<Rightarrow> None
      | Some r \<Rightarrow>
          if takeWhile is_digit r = [] then None
          else (case strip_prefix [41] (dropWhile is_digit r) of None \<Rightarrow> None
                | Some r' \<Rightarrow> Some (nat_of_digits (takeWhile is_digit r))))"

text \<open>
  One of the three attempts on a link: click it, wait, and compare the page number;
  \<open>Inl\<close> when the click raises (the handler of the link loop then takes the next link).
\<close>

definition click_link :: "('st, 'el) driver \<Rightarrow> nat \<Rightarrow> 'el \<Rightarrow> 'st \<Rightarrow> (pyexn + bool) \<times> 'st" where
  "click_link D current_page link s =
     (case js_click D link s of
        (Inl e, s1) \<Rightarrow> (Inl e, s1)
      | (Inr u, s1) \<Rightarrow> (Inr (get_current_page_number D (sleep D 4000 s1) > current_page),
                         sleep D 4000 s1))"

text \<open>
  The body of the loop over the links: the three \<open>if\<close> statements in sequence, from the
  last to the first. The result is \<open>True\<close> when one of them returned from the function.
\<close>

definition by_link_text :: "('st, 'el) driver \<Rightarrow> nat \<Rightarrow> 'el \<Rightarrow> ustr \<Rightarrow> 'st \<Rightarrow> bool \<times> 'st" where
  "by_link_text D current_page link link_text s =
     (if py_isdigit link_text \<and> nat_of_digits link_text = current_page + 1 then
        (case click_link D current_page link s of
           (Inl e, s1) \<Rightarrow> (False, s1)
         | (Inr ok, s1) \<Rightarrow> (ok, s1))
      else (False, s))"

definition by_href :: "('st, 'el) driver \<Rightarrow> nat \<Rightarrow> 'el \<Rightarrow> ustr option \<Rightarrow> ustr \<Rightarrow> 'st \<Rightarrow> bool \<times> 'st" where
  "by_href D current_page link href link_text s =
     (if truthy href \<and> str_in (ascii ''page'') (the href)
         \<and> re_search match_pageNo_at (the href) = Some (current_page + 1) then
        (case click_link D current_page link s of
           (Inl e, s1) \<Rightarrow> (False, s1)
         | (Inr True, s1) \<Rightarrow> (True, s1)
         | (Inr False, s1) \<Rightarrow> by_link_text D current_page link link_text s1)
      else by_link_text D current_page link link_text s)"

definition try_link :: "('st, 'el) driver \<Rightarrow> nat \<Rightarrow> 'el \<Rightarrow> 'st \<Rightarrow> bool \<times> 'st" where
  "try_link D current_page link s =
     (case get_attribute D link (ascii ''onclick'') s of Inl e \<Rightarrow> (False, s)
      | Inr onclick \<Rightarrow>
     (case get_attribute D link (ascii ''href'') s of Inl e \<Rightarrow> (False, s)
      | Inr href \<Rightarrow>
     (case element_text D link s of Inl e \<Rightarrow> (False, s)
      | Inr txt \<Rightarrow>
          if truthy onclick
             \<and> re_search match_goPage_at (the onclick) = Some (current_page + 1) then
            (case click_link D current_page link s of
               (Inl e, s1) \<Rightarrow> (False, s1)
             | (Inr True, s1) \<Rightarrow> (True, s1)
             | (Inr False, s1) \<Rightarrow> by_href D current_page link href (str_strip txt) s1)
          else by_href D current_page link href (str_strip txt) s)))"

fun try_page_links :: "('st, 'el) driver \<Rightarrow> nat \<Rightarrow> 'el list \<Rightarrow> 'st \<Rightarrow> bool \<times> 'st" where
  "try_page_links D current_page [] s = (False, s)"
| "try_page_links D current_page (link # links) s =
     (case try_link D current_page link s of
        (True, s1) \<Rightarrow> (True, s1)
      | (False, s1) \<Rightarrow> try_page_links D current_page links s1)"

definition navigate_to_next_page :: "('st, 'el) driver \<Rightarrow> 'st \<Rightarrow> bool \<times> 'st" where
  "navigate_to_next_page D s =
     (case try_next_buttons D (get_current_page_number D s)
             (next_page_selectors (get_current_page_number D s)) s of
        (True, s1) \<Rightarrow> (True, s1)
      | (False, s1) \<Rightarrow>
          (case find_elements D (ascii ''//a[contains(@onclick, 'goPage') or @href]'') s1 of
             Inl e \<Rightarrow> (False, s1)
           | Inr page_links \<Rightarrow>
               try_page_links D (get_current_page_number D s) page_links s1))"

subsection \<open>select\_market\_type\<close>

text \<open>
  The market names: U+C804 U+CCB4 ("all", the default), U+C720 U+AC00 U+C99D U+AD8C (the
  main board) and U+CF54 U+C2A4 U+B2E5 (KOSDAQ).
\<close>

definition market_all :: ustr where
  "market_all = [51204, 52404]"

definition market_main_board :: ustr where
  "market_main_board = [50976, 44032, 51613, 44428]"

definition market_kosdaq :: ustr where
  "market_kosdaq = [53076, 49828, 45797]"

definition market_selectors :: "ustr \<Rightarrow> locator list option" where
  "market_selectors market_type =
     (if market_type = market_main_board then
        Some [Locator By_CSS_SELECTOR (ascii ''#rWertpapier''),
              Locator By_XPATH (ascii ''//*[@id='rWertpapier']''),
              Locator By_ID (ascii ''rWertpapier''),
              Locator By_XPATH (ascii ''//input[@id='rWertpapier']'')]
      else if market_type = market_kosdaq then
        Some [Locator By_CSS_SELECTOR (ascii ''#rKosdaq''),
              Locator By_XPATH (ascii ''//*[@id='rKosdaq']''),
              Locator By_ID (ascii ''rKosdaq''),
              Locator By_XPATH (ascii ''//input[@id='rKosdaq']'')]
      else None)"

text \<open>
  The loop over the selectors of the radio button; the result is \<open>success\<close>. Every
  exception goes on with the next selector, and so does a click after which the button is
  still not selected.
\<close>

fun try_market_selectors :: "('st, 'el) driver \<Rightarrow> locator list \<Rightarrow> 'st \<Rightarrow> bool \<times> 'st" where
  "try_market_selectors D [] s = (False, s)"
| "try_market_selectors D (selector # selectors) s =
     (case wait_clickable D 10 selector s of
        (Inl e, s1) \<Rightarrow> try_market_selectors D selectors s1
      | (Inr radio_button, s1) \<Rightarrow>
     (case scroll_into_view D radio_button s1 of
        (Inl e, s2) \<Rightarrow> try_market_selectors D selectors s2
      | (Inr u, s2) \<Rightarrow>
     (case is_selected D radio_button (sleep D 1000 s2) of
        Inl e \<Rightarrow> try_market_selectors D selectors (sleep D 1000 s2)
      | Inr True \<Rightarrow> (True, sleep D 1000 s2)
      | Inr False \<Rightarrow>
     (case js_click D radio_button (sleep D 1000 s2) of
        (Inl e, s3) \<Rightarrow> try_market_selectors D selectors s3
      | (Inr u', s3) \<Rightarrow>
     (case is_selected D radio_button (sleep D 500 s3) of
        Inl e \<Rightarrow> try_market_selectors D selectors (sleep D 500 s3)
      | Inr True \<Rightarrow> (True, sleep D 500 s3)
      | Inr False \<Rightarrow> try_market_selectors D selectors (sleep D 500 s3))))))"

definition select_market_type :: "('st, 'el) driver \<Rightarrow> ustr \<Rightarrow> 'st \<Rightarrow> bool \<times> 'st" where
  "select_market_type D market_type s =
     (if market_type = market_all then (True, s)
      else case market_selectors market_type of
        None \<Rightarrow> (True, s)
      | Some selectors \<Rightarrow>
          (case try_market_selectors D selectors s of
             (True, s1) \<Rightarrow> (True, sleep D 2000 s1)
           | (False, s1) \<Rightarrow> (False, sleep D 2000 (save_screenshot D s1))))"

subsection \<open>scrape\_period\_data\<close>

text \<open>
  The second half of \<open>extract_page_data\<close> runs the row loop on the rows found; nothing in
  it changes the page.
\<close>

definition extract_page_data :: "('st, 'el) driver \<Rightarrow> 'st \<Rightarrow> data_item list" where
  "extract_page_data D s = extract_rows (table_rows D s)"

text \<open>
  The four \<open>break\<close> statements of the \<open>while True\<close> loop, in the order of the source.
\<close>

datatype stop = Max_pages_reached | Empty_pages | No_next_page | Safety_limit

text \<open>\<open>if max_pages and page_num > max_pages\<close>: \<open>None\<close> and 0 are false.\<close>

definition over_max_pages :: "int option \<Rightarrow> nat \<Rightarrow> bool" where
  "over_max_pages max_pages page_num \<longleftrightarrow>
     (case max_pages of None \<Rightarrow> False | Some n \<Rightarrow> n \<noteq> 0 \<and> int page_num > n)"

text \<open>
  The loop, with \<open>page_num\<close>, \<open>consecutive_empty_pages\<close> and \<open>all_data\<close> as in the source.
  \<open>sizes\<close> is not in the source: it records \<open>len(page_data)\<close> of every call of
  \<open>extract_page_data\<close>, in order, so that the number of pages extracted can be stated.
  The result is the \<open>break\<close> taken, \<open>sizes\<close>, \<open>all_data\<close> and the state.
\<close>

function scrape_loop ::
  "('st, 'el) driver \<Rightarrow> int option \<Rightarrow> nat \<Rightarrow> nat \<Rightarrow> data_item list \<Rightarrow> nat list \<Rightarrow> 'st
     \<Rightarrow> stop \<times> nat list \<times> data_item list \<times> 'st" where
  "scrape_loop D max_pages page_num consecutive_empty_pages all_data sizes s =
     (if over_max_pages max_pages page_num then (Max_pages_reached, sizes, all_data, s)
      else if extract_page_data D s = [] \<and> consecutive_empty_pages + 1 \<ge> 3
        then (Empty_pages, sizes @ [0], all_data, s)
      else
        (case navigate_to_next_page D s of
           (False, s1) \<Rightarrow>
             (No_next_page, sizes @ [length (extract_page_data D s)],
              all_data @ extract_page_data D s, s1)
         | (True, s1) \<Rightarrow>
             if page_num + 1 > 100
             then (Safety_limit, sizes @ [length (extract_page_data D s)],
                   all_data @ extract_page_data D s, sleep D 2000 s1)
             else scrape_loop D max_pages (page_num + 1)
                    (if extract_page_data D s = [] then consecutive_empty_pages + 1 else 0)
                    (all_data @ extract_page_data D s)
                    (sizes @ [length (extract_page_data D s)])
                    (sleep D 2000 s1)))"
  by pat_completeness auto
termination
  by (relation "measure (\<lambda>(D, max_pages, page_num, c, all_data, sizes, s). 101 - page_num)") auto

declare scrape_loop.simps [simp del]

text \<open>
  The function with the steps before the loop; each failing step returns the empty list.
  \<open>scrape_period_run\<close> also gives the \<open>break\<close> taken (when the loop was entered) and the
  sizes of the pages extracted.
\<close>

definition scrape_period_run ::
  "('st, 'el) driver \<Rightarrow> ustr \<Rightarrow> ustr \<Rightarrow> ustr list option \<Rightarrow> int option \<Rightarrow> ustr \<Rightarrow> 'st
     \<Rightarrow> stop option \<times> nat list \<times> data_item list \<times> 'st" where
  "scrape_period_run D start_date end_date disclosure_types max_pages market_type s =
     (case navigate_to_search_page D s of
        (False, s1) \<Rightarrow> (None, [], [], s1)
      | (True, s1) \<Rightarrow>
     (case set_date_range D start_date end_date s1 of
        (False, s2) \<Rightarrow> (None, [], [], s2)
      | (True, s2) \<Rightarrow>
     (case select_market_type D market_type s2 of
        (False, s3) \<Rightarrow> (None, [], [], s3)
      | (True, s3) \<Rightarrow>
     (case select_disclosure_types D disclosure_types s3 of
        (False, s4) \<Rightarrow> (None, [], [], s4)
      | (True, s4) \<Rightarrow>
     (case click_search_button D (set_page_size D 100 s4) of
        (False, s5) \<Rightarrow> (None, [], [], s5)
      | (True, s5) \<Rightarrow>
          (case scrape_loop D max_pages 1 0 [] [] s5 of
             (stop, sizes, all_data, s6) \<Rightarrow> (Some stop, sizes, all_data, s6)))))))"

definition scrape_period_data ::
  "('st, 'el) driver \<Rightarrow> ustr \<Rightarrow> ustr \<Rightarrow> ustr list option \<Rightarrow> int option \<Rightarrow> ustr \<Rightarrow> 'st
     \<Rightarrow> data_item list \<times> 'st" where
  "scrape_period_data D start_date end_date disclosure_types max_pages market_type s =
     (case scrape_period_run D start_date end_date disclosure_types max_pages market_type s of
        (stop, sizes, all_data, s1) \<Rightarrow> (all_data, s1))"

subsection \<open>A small site to run the code on\<close>

text \<open>
  A site of \<open>last_page\<close> result pages. The state is the number of the page shown. Element 0 is
  the marker of the current page, whose text is that number; element \<open>n > 0\<close> is the link
  with the handler \<open>goPage(n)\<close>, present on page \<open>n - 1\<close>, and a click on it shows page
  \<open>n\<close>. No locator ever becomes clickable. Every page shows the two rows of the
  deduplication scenario.
\<close>

definition site :: "nat \<Rightarrow> (nat, nat) driver" where
  "site last_page =
     \<lparr> wait_clickable = (\<lambda>timeout loc s. (Inl TimeoutException, s)),
       scroll_into_view = (\<lambda>el s. (Inr (), s)),
       js_click = (\<lambda>el s. (Inr (), el)),
       sleep = (\<lambda>ms s. s),
       is_selected = (\<lambda>el s. Inr False),
       is_enabled = (\<lambda>el s. Inr True),
       is_displayed = (\<lambda>el s. Inr True),
       find_elements = (\<lambda>xpath s.
         if xpath = hd current_page_selectors then Inr [0]
         else if xpath = ascii ''//a[contains(@onclick, 'goPage') or @href]''
           then Inr (if s < last_page then [s + 1] else [])
         else Inr []),
       element_text = (\<lambda>el s. Inr (str_of_nat (if el = 0 then s else el))),
       get_attribute = (\<lambda>el name s.
         if name = ascii ''onclick'' \<and> el > 0
         then Inr (Some (ascii ''goPage('' @ str_of_nat el @ ascii '')''))
         else Inr None),
       current_url = (\<lambda>s. Inr (ascii ''https://kind.krx.co.kr/'')),
       save_screenshot = (\<lambda>s. s),
       table_rows = (\<lambda>s. [scenario_row (ascii ''08:00:00''), scenario_row (ascii ''09:00:00'')]),
       navigate_to_search_page = (\<lambda>s. (True, 1)),
       set_date_range = (\<lambda>start_date end_date s. (True, s)),
       select_disclosure_types = (\<lambda>types s. (True, s)),
       set_page_size = (\<lambda>n s. s),
       click_search_button = (\<lambda>s. (True, s)) \<rparr>"

section \<open>Properties of \_analyze\_title\<close>

text \<open>
  C6. For every title: when it contains the warning keyword and the designation keyword
  but not the release keyword, the designation type is \<open>designation\<close>; when it contains
  the warning keyword and the release keyword, it is \<open>cancellation\<close>; the title
  "investment-warning issue, designation release" is a cancellation; and every title that
  contains the first redesignation keyword (U+C7AC U+C9C0 U+C815) has
  \<open>is_redesignation\<close> set.
\<close>

theorem analyze_title_classification:
  "(str_in kw_tuja_gyeonggo ttl \<and> str_in kw_jijeong ttl \<and> \<not> str_in kw_haeje ttl
      \<longrightarrow> designation_type (analyze_title ttl) = ascii ''designation'')
   \<and> (str_in kw_tuja_gyeonggo ttl \<and> str_in kw_haeje ttl
      \<longrightarrow> designation_type (analyze_title ttl) = ascii ''cancellation'')
   \<and> designation_type (analyze_title title_designation_release) = ascii ''cancellation''
   \<and> (str_in [51116, 51648, 51221] ttl \<longrightarrow> is_redesignation (analyze_title ttl))"
proof -
  have "str_in kw_tuja_gyeonggo title_designation_release"
    and "str_in kw_haeje title_designation_release"
    by (simp_all add: kw_tuja_gyeonggo_def kw_haeje_def title_designation_release_def)
  then have "designation_type (analyze_title title_designation_release) = ascii ''cancellation''"
    by (simp add: analyze_title_def)
  then show ?thesis
    by (simp add: analyze_title_def redesignation_keywords_def)
qed

theorem analyze_title_classification_witness:
  "designation_type (analyze_title [53804, 51088, 44221, 44256, 51333, 47785, 32, 51648, 51221])
     = ascii ''designation''
   \<and> designation_type (analyze_title [53804, 51088, 44221, 44256, 32, 54644, 51228])
     = ascii ''cancellation''
   \<and> is_redesignation (analyze_title [53804, 51088, 44221, 44256, 32, 51116, 51648, 51221])"
proof -
  have a: "str_in kw_tuja_gyeonggo [53804, 51088, 44221, 44256, 51333, 47785, 32, 51648, 51221]
      \<and> str_in kw_jijeong [53804, 51088, 44221, 44256, 51333, 47785, 32, 51648, 51221]
      \<and> \<not> str_in kw_haeje [53804, 51088, 44221, 44256, 51333, 47785, 32, 51648, 51221]"
    by (simp add: kw_tuja_gyeonggo_def kw_jijeong_def kw_haeje_def)
  have b: "str_in kw_tuja_gyeonggo [53804, 51088, 44221, 44256, 32, 54644, 51228]
      \<and> str_in kw_haeje [53804, 51088, 44221, 44256, 32, 54644, 51228]"
    by (simp add: kw_tuja_gyeonggo_def kw_haeje_def)
  have c: "str_in [51116, 51648, 51221] [53804, 51088, 44221, 44256, 32, 51116, 51648, 51221]"
    by simp
  show ?thesis
    using a b c
      analyze_title_classification[of "[53804, 51088, 44221, 44256, 51333, 47785, 32, 51648, 51221]"]
      analyze_title_classification[of "[53804, 51088, 44221, 44256, 32, 54644, 51228]"]
      analyze_title_classification[of "[53804, 51088, 44221, 44256, 32, 51116, 51648, 51221]"]
    by blast
qed

section \<open>Properties of split\_date\_range\<close>





text \<open>
  The loop runs while \<open>current_start < end_dt\<close>, so when a sub-range ends on the day
  before \<open>end_dt\<close> the last day is in no sub-range: from 2020-01-01 to 2021-01-03 the
  list ends on 2021-01-02.
\<close>

lemma split_date_range_final_day:
  "split_date_range (ascii ''2020-01-01'') (ascii ''2021-01-03'') 6
     = [(ascii ''2020-01-01'', ascii ''2020-07-01''), (ascii ''2020-07-02'', ascii ''2021-01-02'')]"
  by code_simp

text \<open>
  C10. \<open>split_date_range\<close> returns a list for every pair of strings and every
  \<open>max_months\<close>: the list the loop built, or the single pair of the two input strings.
  It returns that single pair whenever the start or the end does not parse, whenever the
  loop raises, and in particular whenever the day of the start does not exist in the month
  reached by adding \<open>max_months\<close>.
\<close>

theorem split_date_range_never_raises:
  "(split_date_range start_date end_date max_months = [(start_date, end_date)]
      \<or> (\<exists>s e. strptime start_date = Inr s \<and> strptime end_date = Inr e
            \<and> split_loop max_months s e [] = Inr (split_date_range start_date end_date max_months)))
   \<and> ((\<exists>x. strptime start_date = Inl x)
        \<longrightarrow> split_date_range start_date end_date max_months = [(start_date, end_date)])
   \<and> ((\<exists>x. strptime end_date = Inl x)
        \<longrightarrow> split_date_range start_date end_date max_months = [(start_date, end_date)])
   \<and> (\<forall>s e. strptime start_date = Inr s \<and> strptime end_date = Inr e
          \<and> (\<exists>x. split_loop max_months s e [] = Inl x)
        \<longrightarrow> split_date_range start_date end_date max_months = [(start_date, end_date)])
   \<and> (\<forall>s e. strptime start_date = Inr s \<and> strptime end_date = Inr e \<and> dt_less s e
          \<and> (\<exists>x. add_max_months s max_months = Inl x)
        \<longrightarrow> split_date_range start_date end_date max_months = [(start_date, end_date)])"
proof (intro conjI allI impI)
  show "split_date_range start_date end_date max_months = [(start_date, end_date)]
      \<or> (\<exists>s e. strptime start_date = Inr s \<and> strptime end_date = Inr e
            \<and> split_loop max_months s e [] = Inr (split_date_range start_date end_date max_months))"
  proof (cases "strptime start_date")
    case Inl
    then show ?thesis by (simp add: split_date_range_def)
  next
    case s: (Inr s)
    show ?thesis
    proof (cases "strptime end_date")
      case Inl
      then show ?thesis using s by (simp add: split_date_range_def)
    next
      case e: (Inr e)
      show ?thesis
      proof (cases "split_loop max_months s e []")
        case Inl
        then show ?thesis using s e by (simp add: split_date_range_def)
      next
        case (Inr out)
        then show ?thesis using s e by (simp add: split_date_range_def)
      qed
    qed
  qed
next
  assume "\<exists>x. strptime start_date = Inl x"
  then obtain x where "strptime start_date = Inl x" ..
  then show "split_date_range start_date end_date max_months = [(start_date, end_date)]"
    by (simp add: split_date_range_def)
next
  assume "\<exists>x. strptime end_date = Inl x"
  then obtain x where "strptime end_date = Inl x" ..
  then show "split_date_range start_date end_date max_months = [(start_date, end_date)]"
    by (cases "strptime start_date") (simp_all add: split_date_range_def)
next
  fix s e
  assume a: "strptime start_date = Inr s \<and> strptime end_date = Inr e
          \<and> (\<exists>x. split_loop max_months s e [] = Inl x)"
  then obtain x where "split_loop max_months s e [] = Inl x" by blast
  with a show "split_date_range start_date end_date max_months = [(start_date, end_date)]"
    by (simp add: split_date_range_def)
next
  fix s e
  assume a: "strptime start_date = Inr s \<and> strptime end_date = Inr e \<and> dt_less s e
          \<and> (\<exists>x. add_max_months s max_months = Inl x)"
  then obtain x where "add_max_months s max_months = Inl x" by blast
  with a have "split_loop max_months s e [] = Inl x"
    by (simp add: split_loop.simps[of max_months s e "[]"])
  with a show "split_date_range start_date end_date max_months = [(start_date, end_date)]"
    by (simp add: split_date_range_def)
qed

theorem split_date_range_never_raises_witness:
  "strptime (ascii ''2020-13-01'') = Inl ValueError
   \<and> split_date_range (ascii ''2020-13-01'') (ascii ''2022-03-01'') 6
       = [(ascii ''2020-13-01'', ascii ''2022-03-01'')]
   \<and> strptime (ascii ''next year'') = Inl ValueError
   \<and> split_date_range (ascii ''2020-08-31'') (ascii ''next year'') 6
       = [(ascii ''2020-08-31'', ascii ''next year'')]
   \<and> strptime (ascii ''2020-08-31'') = Inr (Datetime 2020 8 31)
   \<and> strptime (ascii ''2022-03-01'') = Inr (Datetime 2022 3 1)
   \<and> dt_less (Datetime 2020 8 31) (Datetime 2022 3 1)
   \<and> add_max_months (Datetime 2020 8 31) 6 = Inl ValueError
   \<and> split_loop 6 (Datetime 2020 8 31) (Datetime 2022 3 1) [] = Inl ValueError
   \<and> split_date_range (ascii ''2020-08-31'') (ascii ''2022-03-01'') 6
       = [(ascii ''2020-08-31'', ascii ''2022-03-01'')]"
proof -
  have h1: "strptime (ascii ''2020-13-01'') = Inl ValueError" by code_simp
  have h2: "strptime (ascii ''next year'') = Inl ValueError" by code_simp
  have h3: "strptime (ascii ''2020-08-31'') = Inr (Datetime 2020 8 31)" by code_simp
  have h4: "strptime (ascii ''2022-03-01'') = Inr (Datetime 2022 3 1)" by code_simp
  have h5: "dt_less (Datetime 2020 8 31) (Datetime 2022 3 1)" by code_simp
  have h6: "add_max_months (Datetime 2020 8 31) 6 = Inl ValueError" by code_simp
  have h7: "split_loop 6 (Datetime 2020 8 31) (Datetime 2022 3 1) [] = Inl ValueError" by code_simp
  show ?thesis
    using h1 h2 h3 h4 h5 h6 h7
      split_date_range_never_raises[of "ascii ''2020-13-01''" "ascii ''2022-03-01''" 6]
      split_date_range_never_raises[of "ascii ''2020-08-31''" "ascii ''next year''" 6]
      split_date_range_never_raises[of "ascii ''2020-08-31''" "ascii ''2022-03-01''" 6]
    by simp
qed

section \<open>Properties of \_extract\_disclosure\_link\<close>

lemma strip_prefix_iff: "strip_prefix p s = Some t \<longleftrightarrow> s = p @ t"
  by (induction p s rule: strip_prefix.induct) auto

lemma strip_prefix_append: "strip_prefix p (p @ s) = Some s"
  by (simp add: strip_prefix_iff)

lemma starts_with_iff: "starts_with p s \<longleftrightarrow> (\<exists>t. s = p @ t)"
  by (induction p s rule: starts_with.induct) auto

lemma str_in_iff: "str_in n s \<longleftrightarrow> (\<exists>a b. s = a @ n @ b)"
proof (induction s)
  case Nil
  then show ?case by auto
next
  case (Cons c cs)
  show ?case
  proof
    assume "str_in n (c # cs)"
    then consider "starts_with n (c # cs)" | "str_in n cs" by auto
    then show "\<exists>a b. c # cs = a @ n @ b"
    proof cases
      case 1
      then obtain t where "c # cs = n @ t" by (auto simp: starts_with_iff)
      then have "c # cs = [] @ n @ t" by simp
      then show ?thesis by blast
    next
      case 2
      with Cons.IH obtain a b where "cs = a @ n @ b" by blast
      then have "c # cs = (c # a) @ n @ b" by simp
      then show ?thesis by blast
    qed
  next
    assume "\<exists>a b. c # cs = a @ n @ b"
    then obtain a b where ab: "c # cs = a @ n @ b" by blast
    show "str_in n (c # cs)"
    proof (cases a)
      case Nil
      with ab have "starts_with n (c # cs)" by (auto simp: starts_with_iff)
      then show ?thesis by simp
    next
      case (Cons x a')
      with ab have "cs = a' @ n @ b" by simp
      with Cons.IH have "str_in n cs" by blast
      then show ?thesis by simp
    qed
  qed
qed

lemma re_search_hit: "match_at s = Some g \<Longrightarrow> re_search match_at s = Some g"
  by (cases s) simp_all

lemma re_search_skip:
  "(\<forall>k < length pre. match_at (drop k (pre @ s)) = None)
     \<Longrightarrow> re_search match_at (pre @ s) = re_search match_at s"
proof (induction pre)
  case Nil
  then show ?case by simp
next
  case (Cons c pre)
  from Cons.prems have "match_at (drop 0 ((c # pre) @ s)) = None" by blast
  then have h: "match_at (c # pre @ s) = None" by simp
  have "\<forall>k < length pre. match_at (drop k (pre @ s)) = None"
  proof (intro allI impI)
    fix k assume "k < length pre"
    then have "Suc k < length (c # pre)" by simp
    with Cons.prems have "match_at (drop (Suc k) ((c # pre) @ s)) = None" by blast
    then show "match_at (drop k (pre @ s)) = None" by simp
  qed
  with Cons.IH h show ?case by simp
qed

lemma viewer_name_length: "length viewer_name = 16"
  by (simp add: viewer_name_def ascii_def)

lemma viewer_open_nth:
  "viewer_open ! 0 = 111" "\<And>i. 1 \<le> i \<Longrightarrow> i < 16 \<Longrightarrow> viewer_open ! i \<noteq> 111"
proof -
  show "viewer_open ! 0 = 111" by (simp add: viewer_open_def viewer_name_def ascii_def)
  fix i :: nat assume "1 \<le> i" "i < 16"
  then have "i \<in> {1,2,3,4,5,6,7,8,9,10,11,12,13,14,15}" by (simp add: insert_iff) arith
  then show "viewer_open ! i \<noteq> 111"
    by (auto simp: viewer_open_def viewer_name_def ascii_def)
qed

lemma no_match_in_pre:
  assumes np: "\<not> str_in viewer_name pre" and k: "k < length pre"
  shows "strip_prefix viewer_open (drop k pre @ viewer_open @ rest) = None"
proof (rule ccontr)
  assume "strip_prefix viewer_open (drop k pre @ viewer_open @ rest) \<noteq> None"
  then obtain t where eq: "drop k pre @ viewer_open @ rest = viewer_open @ t"
    by (auto simp: strip_prefix_iff)
  define u where "u = drop k pre"
  have u1: "1 \<le> length u" using k by (simp add: u_def)
  have eq': "u @ viewer_open @ rest = viewer_name @ [40, 39] @ t"
    using eq by (simp add: u_def viewer_open_def)
  show False
  proof (cases "16 \<le> length u")
    case True
    have "take 16 (u @ viewer_open @ rest) = take 16 (viewer_name @ [40, 39] @ t)"
      using eq' by simp
    then have "take 16 u = viewer_name" using True viewer_name_length by simp
    then have "u = viewer_name @ drop 16 u" by (metis append_take_drop_id)
    then have "pre = take k pre @ viewer_name @ drop 16 u"
      by (metis append_take_drop_id u_def)
    then have "str_in viewer_name pre" by (subst str_in_iff) blast
    with np show False by simp
  next
    case False
    then have lt: "length u < 16" by simp
    have "(u @ viewer_open @ rest) ! length u = (viewer_open @ t) ! length u"
      using eq by (simp add: u_def)
    moreover have "(u @ viewer_open @ rest) ! length u = viewer_open ! 0"
      by (simp add: nth_append viewer_open_def viewer_name_def ascii_def)
    moreover have "(viewer_open @ t) ! length u = viewer_open ! length u"
      using lt viewer_name_length by (simp add: nth_append viewer_open_def)
    ultimately have "viewer_open ! length u = 111" using viewer_open_nth(1) by simp
    with viewer_open_nth(2)[OF u1 lt] show False by simp
  qed
qed

lemma takeWhile_stop: "\<forall>c \<in> set A. P c \<Longrightarrow> \<not> P y \<Longrightarrow> takeWhile P (A @ y # x) = A"
  by (induction A) auto

lemma dropWhile_stop: "\<forall>c \<in> set A. P c \<Longrightarrow> \<not> P y \<Longrightarrow> dropWhile P (A @ y # x) = y # x"
  by (induction A) auto

lemma match_viewer_at_call:
  assumes "\<forall>c \<in> set A. c \<noteq> 39" "\<forall>c \<in> set B. c \<noteq> 39" "\<forall>c \<in> set C. c \<noteq> 39"
    and "\<forall>c \<in> set ws1. is_space c" "\<forall>c \<in> set ws2. is_space c"
  shows "match_viewer_at (viewer_open @ A @ 39 # 44 # ws1 @ 39 # B @ 39 # 44 # ws2 @ 39 # C @ 39 # post)
           = Some (A, B, C)"
proof -
  have q: "\<not> not_quote 39" "\<not> is_space 39" by (simp_all add: not_quote_def is_space_def)
  have nq: "\<forall>c \<in> set A. not_quote c" "\<forall>c \<in> set B. not_quote c" "\<forall>c \<in> set C. not_quote c"
    using assms by (simp_all add: not_quote_def)
  show ?thesis
    unfolding match_viewer_at_def
    by (simp add: strip_prefix_append takeWhile_stop dropWhile_stop nq q assms(4,5))
qed

lemma viewer_call_link:
  assumes A: "\<forall>c \<in> set A. c \<noteq> 39" and B: "\<forall>c \<in> set B. c \<noteq> 39" and C: "\<forall>c \<in> set C. c \<noteq> 39"
    and w1: "\<forall>c \<in> set ws1. is_space c" and w2: "\<forall>c \<in> set ws2. is_space c"
    and np: "\<not> str_in viewer_name pre"
  shows "extract_disclosure_link
           (Some (pre @ viewer_open @ A @ 39 # 44 # ws1 @ 39 # B @ 39 # 44 # ws2 @ 39 # C @ 39 # post))
           href_text
         = Some (viewer_link A B C)"
proof -
  define call where "call = viewer_open @ A @ 39 # 44 # ws1 @ 39 # B @ 39 # 44 # ws2 @ 39 # C @ 39 # post"
  define rest where "rest = A @ 39 # 44 # ws1 @ 39 # B @ 39 # 44 # ws2 @ 39 # C @ 39 # post"
  have call: "call = viewer_open @ rest" by (simp add: call_def rest_def)
  have hit: "match_viewer_at call = Some (A, B, C)"
    unfolding call_def by (rule match_viewer_at_call[OF A B C w1 w2])
  have miss: "\<forall>k < length pre. match_viewer_at (drop k (pre @ call)) = None"
  proof (intro allI impI)
    fix k assume k: "k < length pre"
    have "strip_prefix viewer_open (drop k pre @ viewer_open @ rest) = None"
      using np k by (rule no_match_in_pre)
    then show "match_viewer_at (drop k (pre @ call)) = None"
      using k by (simp add: match_viewer_at_def call)
  qed
  have found: "re_search match_viewer_at (pre @ call) = Some (A, B, C)"
    using re_search_skip[of pre match_viewer_at call, OF miss]
      re_search_hit[of match_viewer_at call "(A, B, C)", OF hit] by simp
  have "pre @ call = pre @ viewer_name @ ([40, 39] @ rest)" by (simp add: call viewer_open_def)
  then have has: "str_in viewer_name (pre @ call)" by (subst str_in_iff) blast
  have ne: "pre @ call \<noteq> []" by (simp add: call viewer_open_def)
  have "extract_disclosure_link (Some (pre @ call)) href_text = Some (viewer_link A B C)"
    using found has ne by (simp add: extract_disclosure_link_def truthy_def)
  then show ?thesis by (simp add: call_def)
qed

lemma no_pattern_no_link:
  assumes "\<not> truthy onclick_text \<or> re_search match_viewer_at (the onclick_text) = None"
    and "\<not> truthy href_text \<or> re_search match_href_at (the href_text) = None"
  shows "extract_disclosure_link onclick_text href_text = None"
  using assms by (auto simp: extract_disclosure_link_def)

text \<open>
  C8. When the click handler is some text without the name \<open>openDisclsViewer\<close>, followed by
  the call \<open>openDisclsViewer('A','B','C'\<close> (tokens without a quote, optional whitespace after
  the commas) and anything after it, the link is
  \<open>{base}/common/disclsviewer.do?method=search&acptno=A&docno=B&viewerhost=C&viewerport=\<close>,
  whatever the href is; the handler \<open>openDisclsViewer('12345','67890','host1','')\<close> gives
  the link with 12345, 67890 and host1; and when neither the handler matches its pattern
  nor the href matches the \<open>disclsviewer.do\<close> pattern there is no link.
\<close>

theorem extract_disclosure_link_viewer:
  "((\<forall>c \<in> set A. c \<noteq> 39) \<and> (\<forall>c \<in> set B. c \<noteq> 39) \<and> (\<forall>c \<in> set C. c \<noteq> 39)
      \<and> (\<forall>c \<in> set ws1. is_space c) \<and> (\<forall>c \<in> set ws2. is_space c)
      \<and> \<not> str_in viewer_name pre
     \<longrightarrow> extract_disclosure_link
           (Some (pre @ viewer_open @ A @ 39 # 44 # ws1 @ 39 # B @ 39 # 44 # ws2 @ 39 # C @ 39 # post))
           href_text
         = Some (base_url @ ascii ''/common/disclsviewer.do?method=search&acptno='' @ A
                  @ ascii ''&docno='' @ B @ ascii ''&viewerhost='' @ C @ ascii ''&viewerport=''))
   \<and> extract_disclosure_link (Some handler_example) href_text
       = Some (base_url @ ascii ''/common/disclsviewer.do?method=search&acptno=12345&docno=67890&viewerhost=host1&viewerport='')
   \<and> ((\<not> truthy onclick_text \<or> re_search match_viewer_at (the onclick_text) = None)
        \<and> (\<not> truthy href_text' \<or> re_search match_href_at (the href_text') = None)
     \<longrightarrow> extract_disclosure_link onclick_text href_text' = None)"
proof (intro conjI impI)
  assume "(\<forall>c \<in> set A. c \<noteq> 39) \<and> (\<forall>c \<in> set B. c \<noteq> 39) \<and> (\<forall>c \<in> set C. c \<noteq> 39)
      \<and> (\<forall>c \<in> set ws1. is_space c) \<and> (\<forall>c \<in> set ws2. is_space c)
      \<and> \<not> str_in viewer_name pre"
  then have h: "\<forall>c \<in> set A. c \<noteq> 39" "\<forall>c \<in> set B. c \<noteq> 39" "\<forall>c \<in> set C. c \<noteq> 39"
      "\<forall>c \<in> set ws1. is_space c" "\<forall>c \<in> set ws2. is_space c" "\<not> str_in viewer_name pre"
    by simp_all
  show "extract_disclosure_link
           (Some (pre @ viewer_open @ A @ 39 # 44 # ws1 @ 39 # B @ 39 # 44 # ws2 @ 39 # C @ 39 # post))
           href_text
         = Some (base_url @ ascii ''/common/disclsviewer.do?method=search&acptno='' @ A
                  @ ascii ''&docno='' @ B @ ascii ''&viewerhost='' @ C @ ascii ''&viewerport='')"
    using viewer_call_link[OF h] by (simp add: viewer_link_def)
next
  have a: "\<forall>c \<in> set (ascii ''12345''). c \<noteq> 39" "\<forall>c \<in> set (ascii ''67890''). c \<noteq> 39"
    "\<forall>c \<in> set (ascii ''host1''). c \<noteq> 39" by (simp_all add: ascii_def)
  have e: "\<forall>c \<in> set ([]::ustr). is_space c" by simp
  have n: "\<not> str_in viewer_name []" by (simp add: viewer_name_def ascii_def)
  have "extract_disclosure_link (Some handler_example) href_text
          = Some (viewer_link (ascii ''12345'') (ascii ''67890'') (ascii ''host1''))"
    using viewer_call_link[OF a e e n, of "[44, 39, 39, 41]" href_text]
    by (simp add: handler_example_def)
  then show "extract_disclosure_link (Some handler_example) href_text
       = Some (base_url @ ascii ''/common/disclsviewer.do?method=search&acptno=12345&docno=67890&viewerhost=host1&viewerport='')"
    by (simp add: viewer_link_def ascii_def)
next
  assume "(\<not> truthy onclick_text \<or> re_search match_viewer_at (the onclick_text) = None)
        \<and> (\<not> truthy href_text' \<or> re_search match_href_at (the href_text') = None)"
  then show "extract_disclosure_link onclick_text href_text' = None"
    using no_pattern_no_link by blast
qed

theorem extract_disclosure_link_viewer_witness:
  "extract_disclosure_link
      (Some (ascii ''return '' @ viewer_open @ ascii ''2024'' @ 39 # 44 # [32] @ 39 # ascii ''77''
               @ 39 # 44 # [] @ 39 # ascii ''h'' @ 39 # ascii '');''))
      None
     = Some (base_url @ ascii ''/common/disclsviewer.do?method=search&acptno='' @ ascii ''2024''
              @ ascii ''&docno='' @ ascii ''77'' @ ascii ''&viewerhost='' @ ascii ''h''
              @ ascii ''&viewerport='')
   \<and> re_search match_viewer_at (ascii ''return false;'') = None
   \<and> re_search match_href_at (ascii ''#'') = None
   \<and> extract_disclosure_link (Some (ascii ''return false;'')) (Some (ascii ''#'')) = None"
proof -
  have a: "(\<forall>c \<in> set (ascii ''2024''). c \<noteq> 39) \<and> (\<forall>c \<in> set (ascii ''77''). c \<noteq> 39)
      \<and> (\<forall>c \<in> set (ascii ''h''). c \<noteq> 39)
      \<and> (\<forall>c \<in> set [32]. is_space c) \<and> (\<forall>c \<in> set ([]::ustr). is_space c)
      \<and> \<not> str_in viewer_name (ascii ''return '')"
    by (simp add: ascii_def is_space_def viewer_name_def)
  have b: "re_search match_viewer_at (ascii ''return false;'') = None" by code_simp
  have c: "re_search match_href_at (ascii ''#'') = None" by code_simp
  show ?thesis
    using a b c
      extract_disclosure_link_viewer[of "ascii ''2024''" "ascii ''77''" "ascii ''h''" "[32]" "[]"
        "ascii ''return ''" "ascii '');''" None "Some (ascii ''return false;'')" "Some (ascii ''#'')"]
    by simp
qed

section \<open>Properties of the row loop and of the deduplication\<close>



text \<open>
  C4 as stated fails: the key of the deduplication contains the datetime, the two rows of
  the scenario differ in it, and both are kept.
\<close>

theorem dedup_scenario_counterexample:
  "length (drop_duplicates (extract_rows
      [scenario_row (ascii ''08:00:00''), scenario_row (ascii ''09:00:00'')])) = 2"
  by code_simp

text \<open>
  C4, as the code has it. The two rows of the scenario (08:00:00 and 09:00:00, same company
  and title) give two items with different keys; the deduplication keeps both, and each
  has the designation type \<open>designation\<close>. When both rows carry 08:00:00 the
  deduplication leaves exactly one item, with the designation type \<open>designation\<close>.
\<close>

theorem dedup_scenario:
  "map datetime (extract_rows [scenario_row (ascii ''08:00:00''), scenario_row (ascii ''09:00:00'')])
     = [ascii ''08:00:00'', ascii ''09:00:00'']
   \<and> map company_name (extract_rows [scenario_row (ascii ''08:00:00''), scenario_row (ascii ''09:00:00'')])
     = [ascii ''A Corp'', ascii ''A Corp'']
   \<and> map title (extract_rows [scenario_row (ascii ''08:00:00''), scenario_row (ascii ''09:00:00'')])
     = [title_designation, title_designation]
   \<and> drop_duplicates (extract_rows [scenario_row (ascii ''08:00:00''), scenario_row (ascii ''09:00:00'')])
     = extract_rows [scenario_row (ascii ''08:00:00''), scenario_row (ascii ''09:00:00'')]
   \<and> map designation_type (drop_duplicates (extract_rows
        [scenario_row (ascii ''08:00:00''), scenario_row (ascii ''09:00:00'')]))
     = [ascii ''designation'', ascii ''designation'']
   \<and> map designation_type (drop_duplicates (extract_rows
        [scenario_row (ascii ''08:00:00''), scenario_row (ascii ''08:00:00'')]))
     = [ascii ''designation'']"
  by code_simp

end
